theory Spec2Isabelle
  imports Complex_Main
begin

section \<open>Guest-mode persistence and context assembly of AskStash\<close>

text \<open>
  A shallow embedding of \<^verbatim>\<open>src/services/guestService.ts\<close> (class \<^verbatim>\<open>GuestService\<close>,
  the \<^verbatim>\<open>visibilitychange\<close> listener) and of the guest branch of
  \<^verbatim>\<open>handleSendMessage\<close> in the dashboard page.

  Conventions of the model:
  \<^item> a JavaScript exception is a value \<open>Inl e\<close> of a sum type; a \<^verbatim>\<open>try/catch\<close> is a case
    distinction on that sum;
  \<^item> \<^verbatim>\<open>localStorage\<close> is an explicit state that every operation takes and returns;
  \<^item> \<^verbatim>\<open>Date.now()\<close>, \<^verbatim>\<open>new Date().toISOString()\<close> and the outcome of \<^verbatim>\<open>fetch\<close> are
    inputs of the operation that reads them;
  \<^item> text is \<open>string\<close>, a list of 8-bit characters standing for the code units of a
    JavaScript string; numbers that the code handles are integers far below \<open>2^53\<close>
    (millisecond clocks, string lengths), modelled as \<open>int\<close> and \<open>nat\<close>.
\<close>

subsection \<open>Data model\<close>

text \<open>
  The value of a \<^verbatim>\<open>response\<close> field. The interface declares a string, but the code stores
  \<^verbatim>\<open>data.response\<close> of the backend's answer without looking at it: it is a string,
  \<^verbatim>\<open>undefined\<close> (the body has no such key, or is not an object), or a JSON value that is not
  a string (\<^verbatim>\<open>null\<close>, a boolean, a number, an array, an object). \<^verbatim>\<open>JSON.stringify\<close> leaves
  out an undefined field and writes every other one; parsing gives a value of the same kind
  back, and the same string.
\<close>

datatype response_value = Text string | Undefined | NonString

text \<open>\<^verbatim>\<open>interface GuestDocument\<close> and \<^verbatim>\<open>interface GuestChatMessage\<close>. The field \<^verbatim>\<open>id\<close>
  is named \<open>doc_id\<close> and \<open>msg_id\<close>; the optional \<^verbatim>\<open>context_documents\<close> is an option.\<close>

record GuestDocument =
  filename :: string
  file_type :: string
  content :: string
  doc_id :: string
  doc_created_at :: string

record GuestChatMessage =
  message :: string
  response :: response_value
  context_documents :: "string option"
  msg_id :: string
  msg_created_at :: string

text \<open>The argument of \<^verbatim>\<open>saveDocument\<close> (\<^verbatim>\<open>Omit<GuestDocument, 'id' | 'created_at'>\<close>) and
  of \<^verbatim>\<open>saveChatMessage\<close>.\<close>

record DocumentData =
  data_filename :: string
  data_file_type :: string
  data_content :: string

record MessageData =
  data_message :: string
  data_response :: response_value
  data_context_documents :: "string option"

text \<open>Exceptions: the name of the error and its message, as \<^verbatim>\<open>`${error}`\<close> prints them.\<close>

datatype js_error =
    SecurityError string
  | QuotaExceededError string
  | SyntaxError string
  | TypeError string
  | Error string

fun error_name :: "js_error \<Rightarrow> string" where
  "error_name (SecurityError m) = ''SecurityError''"
| "error_name (QuotaExceededError m) = ''QuotaExceededError''"
| "error_name (SyntaxError m) = ''SyntaxError''"
| "error_name (TypeError m) = ''TypeError''"
| "error_name (Error m) = ''Error''"

fun error_message :: "js_error \<Rightarrow> string" where
  "error_message (SecurityError m) = m"
| "error_message (QuotaExceededError m) = m"
| "error_message (SyntaxError m) = m"
| "error_message (TypeError m) = m"
| "error_message (Error m) = m"

definition error_toString :: "js_error \<Rightarrow> string" where
  "error_toString e =
     (if error_message e = [] then error_name e
      else error_name e @ '': '' @ error_message e)"

subsection \<open>The browser's local storage\<close>

text \<open>
  What \<^verbatim>\<open>JSON.parse\<close> returns for the text of a collection slot: an array of records of
  the declared interface, or a JSON value that is not an array (\<^verbatim>\<open>null\<close>, a boolean, a
  number, a string, an object). Every array method (\<^verbatim>\<open>push\<close>, \<^verbatim>\<open>filter\<close>, \<^verbatim>\<open>find\<close>,
  \<^verbatim>\<open>map\<close>) called on a value of the second kind throws a \<^verbatim>\<open>TypeError\<close>.
\<close>

datatype non_array = JNull | JBoolean bool | JNumber int | JString string | JObject

datatype 'a js_value = Array "'a list" | NonArray non_array

text \<open>
  The text held under a collection key, by what \<^verbatim>\<open>stored ? JSON.parse(stored) : []\<close>
  makes of it: the empty string (falsy), a text that \<^verbatim>\<open>JSON.parse\<close> rejects with a
  \<^verbatim>\<open>SyntaxError\<close>, or the serialisation of a JSON value. Writing
  \<^verbatim>\<open>JSON.stringify(v)\<close> stores \<open>Json v\<close>: parsing a serialised array of records with
  string fields gives the array back.
\<close>

datatype 'a item = EmptyString | Malformed | Json "'a js_value"

text \<open>
  The four keys the guest service uses. \<open>None\<close> is an absent key (\<^verbatim>\<open>getItem\<close> returns
  \<^verbatim>\<open>null\<close>). \<open>denied\<close>: every access to \<^verbatim>\<open>localStorage\<close> throws a \<^verbatim>\<open>SecurityError\<close>
  (storage disabled); \<open>full\<close>: the browser refuses the write attempted in this state,
  \<^verbatim>\<open>setItem\<close> throws a \<^verbatim>\<open>QuotaExceededError\<close>. Whether the browser refuses a write
  depends on the size written and on everything else the origin stores, which the model does
  not compute: the two flags are given from outside, for the one call that starts in this
  state. No operation of the service changes them; between the calls of a sequence the
  browser may (\<open>StorageCondition\<close> below).
\<close>

record local_storage =
  denied :: bool
  full :: bool
  guestDocuments :: "GuestDocument item option"
  guestChatHistory :: "GuestChatMessage item option"
  guestMode :: "string option"
  guestModeLastActive :: "string option"

definition empty_storage :: local_storage where
  "empty_storage =
     \<lparr>denied = False, full = False, guestDocuments = None, guestChatHistory = None,
      guestMode = None, guestModeLastActive = None\<rparr>"

definition access_denied :: js_error where
  "access_denied = SecurityError ''The operation is insecure.''"

definition quota_exceeded :: js_error where
  "quota_exceeded = QuotaExceededError ''The quota has been exceeded.''"

text \<open>\<^verbatim>\<open>localStorage.getItem(key)\<close> for each key.\<close>

definition getItem_documents :: "local_storage \<Rightarrow> js_error + GuestDocument item option" where
  "getItem_documents s = (if denied s then Inl access_denied else Inr (guestDocuments s))"

definition getItem_chatHistory :: "local_storage \<Rightarrow> js_error + GuestChatMessage item option" where
  "getItem_chatHistory s = (if denied s then Inl access_denied else Inr (guestChatHistory s))"

definition getItem_guestMode :: "local_storage \<Rightarrow> js_error + string option" where
  "getItem_guestMode s = (if denied s then Inl access_denied else Inr (guestMode s))"

definition getItem_lastActive :: "local_storage \<Rightarrow> js_error + string option" where
  "getItem_lastActive s = (if denied s then Inl access_denied else Inr (guestModeLastActive s))"

text \<open>\<^verbatim>\<open>localStorage.setItem(key, JSON.stringify(value))\<close> for the two collections, and
  \<^verbatim>\<open>localStorage.setItem('guestModeLastActive', text)\<close>.\<close>

definition setItem_documents ::
  "GuestDocument js_value \<Rightarrow> local_storage \<Rightarrow> js_error + local_storage" where
  "setItem_documents v s =
     (if denied s then Inl access_denied
      else if full s then Inl quota_exceeded
      else Inr (s\<lparr>guestDocuments := Some (Json v)\<rparr>))"

definition setItem_chatHistory ::
  "GuestChatMessage js_value \<Rightarrow> local_storage \<Rightarrow> js_error + local_storage" where
  "setItem_chatHistory v s =
     (if denied s then Inl access_denied
      else if full s then Inl quota_exceeded
      else Inr (s\<lparr>guestChatHistory := Some (Json v)\<rparr>))"

definition setItem_lastActive :: "string \<Rightarrow> local_storage \<Rightarrow> js_error + local_storage" where
  "setItem_lastActive t s =
     (if denied s then Inl access_denied
      else if full s then Inl quota_exceeded
      else Inr (s\<lparr>guestModeLastActive := Some t\<rparr>))"

text \<open>\<^verbatim>\<open>stored ? JSON.parse(stored) : []\<close>\<close>

fun parse_or_empty :: "'a item option \<Rightarrow> js_error + 'a js_value" where
  "parse_or_empty None = Inr (Array [])"
| "parse_or_empty (Some EmptyString) = Inr (Array [])"
| "parse_or_empty (Some Malformed) = Inl (SyntaxError ''Unexpected token'')"
| "parse_or_empty (Some (Json v)) = Inr v"

subsection \<open>Document and chat collections\<close>

text \<open>The body of the \<^verbatim>\<open>try\<close> block of \<^verbatim>\<open>getDocuments\<close>, and \<^verbatim>\<open>getDocuments\<close> with its
  \<^verbatim>\<open>catch\<close>, which logs the error and returns \<^verbatim>\<open>[]\<close>.\<close>

definition getDocuments_try :: "local_storage \<Rightarrow> js_error + GuestDocument js_value" where
  "getDocuments_try s =
     (case getItem_documents s of
        Inl e \<Rightarrow> Inl e
      | Inr stored \<Rightarrow> parse_or_empty stored)"

definition getDocuments :: "local_storage \<Rightarrow> GuestDocument js_value" where
  "getDocuments s = (case getDocuments_try s of Inl e \<Rightarrow> Array [] | Inr v \<Rightarrow> v)"

definition getChatHistory_try :: "local_storage \<Rightarrow> js_error + GuestChatMessage js_value" where
  "getChatHistory_try s =
     (case getItem_chatHistory s of
        Inl e \<Rightarrow> Inl e
      | Inr stored \<Rightarrow> parse_or_empty stored)"

definition getChatHistory :: "local_storage \<Rightarrow> GuestChatMessage js_value" where
  "getChatHistory s = (case getChatHistory_try s of Inl e \<Rightarrow> Array [] | Inr v \<Rightarrow> v)"


text \<open>Array methods on what \<^verbatim>\<open>JSON.parse\<close> returned. On \<^verbatim>\<open>null\<close> the property read
  throws; on any other value that is not an array the method is \<^verbatim>\<open>undefined\<close> and the
  call throws. The message texts are those of V8.\<close>

fun no_method :: "non_array \<Rightarrow> string \<Rightarrow> js_error" where
  "no_method JNull name =
     TypeError (''Cannot read properties of null (reading '' @ [CHR 0x27] @ name @ [CHR 0x27] @ '')'')"
| "no_method v name = TypeError (name @ '' is not a function'')"

fun push :: "'a js_value \<Rightarrow> 'a \<Rightarrow> js_error + 'a js_value" where
  "push (Array xs) x = Inr (Array (xs @ [x]))"
| "push (NonArray v) x = Inl (no_method v ''push'')"

fun filter_array :: "('a \<Rightarrow> bool) \<Rightarrow> 'a js_value \<Rightarrow> js_error + 'a js_value" where
  "filter_array p (Array xs) = Inr (Array (filter p xs))"
| "filter_array p (NonArray v) = Inl (no_method v ''filter'')"

fun find_array :: "('a \<Rightarrow> bool) \<Rightarrow> 'a js_value \<Rightarrow> js_error + 'a option" where
  "find_array p (Array xs) = Inr (find p xs)"
| "find_array p (NonArray v) = Inl (no_method v ''find'')"

fun map_array :: "('a \<Rightarrow> 'b) \<Rightarrow> 'a js_value \<Rightarrow> js_error + 'b list" where
  "map_array f (Array xs) = Inr (map f xs)"
| "map_array f (NonArray v) = Inl (no_method v ''map'')"

text \<open>\<^verbatim>\<open>Number.prototype.toString()\<close> on an integer: its decimal digits, with a minus
  sign when negative.\<close>

definition digit_char :: "nat \<Rightarrow> char" where
  "digit_char d = ''0123456789'' ! d"

function nat_toString :: "nat \<Rightarrow> string" where
  "nat_toString n =
     (if n < 10 then [digit_char n] else nat_toString (n div 10) @ [digit_char (n mod 10)])"
  by pat_completeness auto
termination
  by (relation "measure (\<lambda>n. n)") auto

declare nat_toString.simps [simp del]

definition Number_toString :: "int \<Rightarrow> string" where
  "Number_toString n =
     (if n < 0 then CHR ''-'' # nat_toString (nat (- n)) else nat_toString (nat n))"

text \<open>\<^verbatim>\<open>saveDocument\<close>: \<open>now\<close> is \<^verbatim>\<open>Date.now()\<close> and \<open>stamp\<close> is
  \<^verbatim>\<open>new Date().toISOString()\<close>. Nothing is caught: a \<^verbatim>\<open>TypeError\<close> of \<^verbatim>\<open>push\<close> and an
  error of \<^verbatim>\<open>setItem\<close> leave the function.\<close>

definition saveDocument ::
  "DocumentData \<Rightarrow> int \<Rightarrow> string \<Rightarrow> local_storage \<Rightarrow> js_error + (GuestDocument \<times> local_storage)" where
  "saveDocument document now stamp s =
     (let documents = getDocuments s;
          newDocument =
            \<lparr>filename = data_filename document, file_type = data_file_type document,
             content = data_content document,
             doc_id = Number_toString now, doc_created_at = stamp\<rparr>
      in case push documents newDocument of
           Inl e \<Rightarrow> Inl e
         | Inr documents' \<Rightarrow>
             (case setItem_documents documents' s of
                Inl e \<Rightarrow> Inl e
              | Inr s' \<Rightarrow> Inr (newDocument, s')))"

text \<open>\<^verbatim>\<open>deleteDocument\<close>: the \<^verbatim>\<open>try\<close> block, then the function with its \<^verbatim>\<open>catch\<close>.\<close>

definition deleteDocument_try :: "string \<Rightarrow> local_storage \<Rightarrow> js_error + local_storage" where
  "deleteDocument_try documentId s =
     (let documents = getDocuments s
      in case filter_array (\<lambda>doc. doc_id doc \<noteq> documentId) documents of
           Inl e \<Rightarrow> Inl e
         | Inr filteredDocuments \<Rightarrow> setItem_documents filteredDocuments s)"

definition deleteDocument :: "string \<Rightarrow> local_storage \<Rightarrow> bool \<times> local_storage" where
  "deleteDocument documentId s =
     (case deleteDocument_try documentId s of
        Inl e \<Rightarrow> (False, s)
      | Inr s' \<Rightarrow> (True, s'))"

text \<open>\<^verbatim>\<open>getDocument\<close>: \<open>None\<close> is \<^verbatim>\<open>null\<close>.\<close>

definition getDocument :: "string \<Rightarrow> local_storage \<Rightarrow> js_error + GuestDocument option" where
  "getDocument documentId s =
     (let documents = getDocuments s
      in find_array (\<lambda>doc. doc_id doc = documentId) documents)"

definition saveChatMessage ::
  "MessageData \<Rightarrow> int \<Rightarrow> string \<Rightarrow> local_storage \<Rightarrow> js_error + (GuestChatMessage \<times> local_storage)" where
  "saveChatMessage msg now stamp s =
     (let history = getChatHistory s;
          newMessage =
            \<lparr>message = data_message msg, response = data_response msg,
             context_documents = data_context_documents msg,
             msg_id = Number_toString now, msg_created_at = stamp\<rparr>
      in case push history newMessage of
           Inl e \<Rightarrow> Inl e
         | Inr history' \<Rightarrow>
             (case setItem_chatHistory history' s of
                Inl e \<Rightarrow> Inl e
              | Inr s' \<Rightarrow> Inr (newMessage, s')))"

text \<open>\<^verbatim>\<open>clearAllData\<close>: three \<^verbatim>\<open>removeItem\<close> calls.\<close>

definition clearAllData :: "local_storage \<Rightarrow> js_error + local_storage" where
  "clearAllData s =
     (if denied s then Inl access_denied
      else Inr (s\<lparr>guestDocuments := None, guestChatHistory := None, guestMode := None\<rparr>))"

subsection \<open>Context assembly and the AI request\<close>

record context_source =
  source_id :: string
  source_filename :: string

record chat_request =
  req_message :: string
  req_context :: string
  req_context_sources :: "context_source list"

text \<open>What \<^verbatim>\<open>await fetch(...)\<close>, \<^verbatim>\<open>response.ok\<close>, \<^verbatim>\<open>await response.json()\<close> and
  \<^verbatim>\<open>data.response\<close> come to: the request is rejected, the status is not a success, the
  body is not JSON, the body is the JSON text \<^verbatim>\<open>null\<close> (reading \<^verbatim>\<open>data.response\<close> then
  throws a \<^verbatim>\<open>TypeError\<close>), or the body is read and \<^verbatim>\<open>data.response\<close> is the given value,
  whatever it is.\<close>

datatype fetch_outcome =
    FetchRejected js_error
  | ResponseNotOk
  | JsonRejected js_error
  | NullBody
  | Data response_value

record ai_result =
  result_response :: response_value
  context_used :: bool
  context_sources :: "context_source list"

text \<open>\<^verbatim>\<open>Array.prototype.join(sep)\<close> on an array of strings: the loop of the language
  specification, which puts the separator before every element but the first.\<close>

definition join :: "string \<Rightarrow> string list \<Rightarrow> string" where
  "join sep xs =
     fst (foldl (\<lambda>(R, k) x. ((if k > 0 then R @ sep else R) @ x, Suc k)) ([], 0::nat) xs)"

text \<open>\<^verbatim>\<open>`--- Document: ${doc.filename} ---\n${doc.content}`\<close> and
  \<^verbatim>\<open>({ id: doc.id, filename: doc.filename })\<close>\<close>

definition document_block :: "GuestDocument \<Rightarrow> string" where
  "document_block doc = ''--- Document: '' @ filename doc @ '' ---'' @ [CHR 0x0A] @ content doc"

definition document_source :: "GuestDocument \<Rightarrow> context_source" where
  "document_source doc = \<lparr>source_id = doc_id doc, source_filename = filename doc\<rparr>"

text \<open>The first statements of the \<^verbatim>\<open>try\<close> block of \<^verbatim>\<open>generateAIResponse\<close>: the values of
  \<^verbatim>\<open>context\<close> and \<^verbatim>\<open>contextSources\<close> when \<^verbatim>\<open>fetch\<close> is called. \<open>None\<close> is an
  \<^verbatim>\<open>undefined\<close> selection.\<close>

definition assemble_context ::
  "string list option \<Rightarrow> bool \<Rightarrow> local_storage \<Rightarrow> js_error + (string \<times> context_source list)" where
  "assemble_context selectedDocuments useAllDocuments s =
     (if useAllDocuments then
        (let allDocs = getDocuments s
         in case map_array document_block allDocs of
              Inl e \<Rightarrow> Inl e
            | Inr blocks \<Rightarrow>
                (case map_array document_source allDocs of
                   Inl e \<Rightarrow> Inl e
                 | Inr sources \<Rightarrow> Inr (join [CHR 0x0A, CHR 0x0A] blocks, sources)))
      else if selectedDocuments \<noteq> None \<and> length (the selectedDocuments) > 0 then
        (let allDocs = getDocuments s
         in case filter_array (\<lambda>doc. doc_id doc \<in> set (the selectedDocuments)) allDocs of
              Inl e \<Rightarrow> Inl e
            | Inr selectedDocs \<Rightarrow>
                (case map_array document_block selectedDocs of
                   Inl e \<Rightarrow> Inl e
                 | Inr blocks \<Rightarrow>
                     (case map_array document_source selectedDocs of
                        Inl e \<Rightarrow> Inl e
                      | Inr sources \<Rightarrow> Inr (join [CHR 0x0A, CHR 0x0A] blocks, sources))))
      else Inr ([], []))"

definition null_body_error :: js_error where
  "null_body_error =
     TypeError (''Cannot read properties of null (reading '' @ [CHR 0x27] @ ''response'' @ [CHR 0x27] @ '')'')"

definition generateAIResponse_try ::
  "(chat_request \<Rightarrow> fetch_outcome) \<Rightarrow> string \<Rightarrow> string list option \<Rightarrow> bool \<Rightarrow> local_storage
     \<Rightarrow> js_error + ai_result" where
  "generateAIResponse_try backend msg selectedDocuments useAllDocuments s =
     (case assemble_context selectedDocuments useAllDocuments s of
        Inl e \<Rightarrow> Inl e
      | Inr (context, contextSources) \<Rightarrow>
          (case backend \<lparr>req_message = msg, req_context = context,
                         req_context_sources = contextSources\<rparr> of
             FetchRejected e \<Rightarrow> Inl e
           | ResponseNotOk \<Rightarrow> Inl (Error ''Failed to get AI response'')
           | JsonRejected e \<Rightarrow> Inl e
           | NullBody \<Rightarrow> Inl null_body_error
           | Data r \<Rightarrow>
               Inr \<lparr>result_response = r, context_used = (length contextSources > 0),
                    context_sources = contextSources\<rparr>))"

definition apology :: string where
  "apology = ''I apologize, but I encountered an error while processing your request: ''"

definition generateAIResponse ::
  "(chat_request \<Rightarrow> fetch_outcome) \<Rightarrow> string \<Rightarrow> string list option \<Rightarrow> bool \<Rightarrow> local_storage
     \<Rightarrow> ai_result" where
  "generateAIResponse backend msg selectedDocuments useAllDocuments s =
     (case generateAIResponse_try backend msg selectedDocuments useAllDocuments s of
        Inl error \<Rightarrow>
          \<lparr>result_response = Text (apology @ error_toString error), context_used = False,
           context_sources = []\<rparr>
      | Inr r \<Rightarrow> r)"


subsection \<open>Session lifecycle\<close>

text \<open>\<^verbatim>\<open>parseInt(string)\<close> with no radix, by the steps of the language specification:
  leading white space is dropped, a sign is read, a prefix \<^verbatim>\<open>0x\<close> selects radix 16,
  the longest prefix of digits is the numeral, and no digit at all gives \<^verbatim>\<open>NaN\<close>
  (\<open>None\<close>). \<open>digit_value\<close> is 36 on a character that is no digit of any radix.\<close>

definition is_whitespace :: "char \<Rightarrow> bool" where
  "is_whitespace c = (of_char c \<in> set [9, 10, 11, 12, 13, 32, 160 :: nat])"

definition digit_value :: "char \<Rightarrow> nat" where
  "digit_value c =
     (let n = of_char c :: nat
      in if 48 \<le> n \<and> n \<le> 57 then n - 48
         else if 97 \<le> n \<and> n \<le> 122 then n - 87
         else if 65 \<le> n \<and> n \<le> 90 then n - 55
         else 36)"

definition numeral_value :: "nat \<Rightarrow> string \<Rightarrow> nat" where
  "numeral_value R Z = foldl (\<lambda>a c. a * R + digit_value c) 0 Z"

definition parseInt :: "string \<Rightarrow> int option" where
  "parseInt inputString =
     (let S = dropWhile is_whitespace inputString;
          sign = (if S \<noteq> [] \<and> hd S = CHR ''-'' then - 1 else 1 :: int);
          S1 = (if S \<noteq> [] \<and> (hd S = CHR ''+'' \<or> hd S = CHR ''-'') then tl S else S);
          hex = (length S1 \<ge> 2 \<and> (take 2 S1 = ''0x'' \<or> take 2 S1 = ''0X''));
          R = (if hex then 16 else 10 :: nat);
          S2 = (if hex then drop 2 S1 else S1);
          Z = takeWhile (\<lambda>c. digit_value c < R) S2
      in if Z = [] then None else Some (sign * int (numeral_value R Z)))"

datatype visibility = Hidden | Visible

text \<open>The \<^verbatim>\<open>visibilitychange\<close> listener. \<open>vs\<close> is \<^verbatim>\<open>document.visibilityState\<close>, \<open>now\<close> is
  \<^verbatim>\<open>Date.now()\<close>; the boolean of the result says whether \<^verbatim>\<open>window.location.reload()\<close>
  was called. A \<^verbatim>\<open>NaN\<close> time difference is not greater than the threshold.\<close>

definition visibilitychange ::
  "visibility \<Rightarrow> int \<Rightarrow> local_storage \<Rightarrow> js_error + (local_storage \<times> bool)" where
  "visibilitychange vs now s =
     (case vs of
        Hidden \<Rightarrow>
          (case getItem_guestMode s of
             Inl e \<Rightarrow> Inl e
           | Inr g \<Rightarrow>
               (let isGuestMode = (g = Some ''true'')
                in if isGuestMode then
                     (case setItem_lastActive (Number_toString now) s of
                        Inl e \<Rightarrow> Inl e
                      | Inr s' \<Rightarrow> Inr (s', False))
                   else Inr (s, False)))
      | Visible \<Rightarrow>
          (case getItem_guestMode s of
             Inl e \<Rightarrow> Inl e
           | Inr g \<Rightarrow>
               (case getItem_lastActive s of
                  Inl e \<Rightarrow> Inl e
                | Inr lastActive \<Rightarrow>
                    (let isGuestMode = (g = Some ''true'')
                     in if isGuestMode \<and> lastActive \<noteq> None \<and> lastActive \<noteq> Some [] then
                          (case parseInt (the lastActive) of
                             None \<Rightarrow> Inr (s, False)
                           | Some t \<Rightarrow>
                               (let timeDiff = now - t
                                in if timeDiff > 30 * 60 * 1000 then
                                     (case clearAllData s of
                                        Inl e \<Rightarrow> Inl e
                                      | Inr s' \<Rightarrow> Inr (s', True))
                                   else Inr (s, False)))
                        else Inr (s, False)))))"

subsection \<open>Storage usage\<close>






subsection \<open>Sending a message in guest mode\<close>

text \<open>\<^verbatim>\<open>JSON.stringify(response.context_sources)\<close>: an array of objects with the keys
  \<^verbatim>\<open>id\<close> and \<^verbatim>\<open>filename\<close>, strings quoted as \<^verbatim>\<open>JSON.stringify\<close> quotes them.\<close>

definition hex_digit :: "nat \<Rightarrow> char" where
  "hex_digit d = ''0123456789abcdef'' ! d"

definition quote_char :: "char \<Rightarrow> string" where
  "quote_char c =
     (let n = of_char c :: nat
      in if n = 8 then [CHR 0x5C, CHR ''b'']
         else if n = 9 then [CHR 0x5C, CHR ''t'']
         else if n = 10 then [CHR 0x5C, CHR ''n'']
         else if n = 12 then [CHR 0x5C, CHR ''f'']
         else if n = 13 then [CHR 0x5C, CHR ''r'']
         else if n = 34 then [CHR 0x5C, CHR 0x22]
         else if n = 92 then [CHR 0x5C, CHR 0x5C]
         else if n < 32 then [CHR 0x5C, CHR ''u'', CHR ''0'', CHR ''0'', hex_digit (n div 16), hex_digit (n mod 16)]
         else [c])"

definition JSON_quote :: "string \<Rightarrow> string" where
  "JSON_quote t = [CHR 0x22] @ concat (map quote_char t) @ [CHR 0x22]"

definition stringify_source :: "context_source \<Rightarrow> string" where
  "stringify_source src =
     ''{'' @ JSON_quote ''id'' @ '':'' @ JSON_quote (source_id src) @ '','' @
     JSON_quote ''filename'' @ '':'' @ JSON_quote (source_filename src) @ ''}''"

definition stringify_sources :: "context_source list \<Rightarrow> string" where
  "stringify_sources srcs = ''['' @ join '','' (map stringify_source srcs) @ '']''"

text \<open>\<^verbatim>\<open>String.prototype.trim\<close>\<close>

definition trim :: "string \<Rightarrow> string" where
  "trim t = rev (dropWhile is_whitespace (rev (dropWhile is_whitespace t)))"

datatype context_mode = Mode_none | Mode_selected | Mode_all

text \<open>The component state that \<^verbatim>\<open>handleSendMessage\<close> reads. \<open>selectedDocuments\<close> holds the
  numbers \<^verbatim>\<open>parseInt(doc.id)\<close> of the documents ticked in the sidebar.\<close>

record ui_state =
  inputMessage :: string
  isLoading :: bool
  contextMode :: context_mode
  selectedDocuments :: "int list"

text \<open>
  The guest branch of \<^verbatim>\<open>handleSendMessage\<close>, as far as it touches the store (the React
  state \<^verbatim>\<open>messages\<close>, which shows the pending message, is never written to storage and is
  left out). \<open>now\<close> and \<open>stamp\<close> are the clock readings inside \<^verbatim>\<open>saveChatMessage\<close>, taken
  after the awaited \<^verbatim>\<open>generateAIResponse\<close> has returned. An exception of
  \<^verbatim>\<open>saveChatMessage\<close> is caught by the handler, which then only changes what is shown.
\<close>

definition handleSendMessage ::
  "(chat_request \<Rightarrow> fetch_outcome) \<Rightarrow> ui_state \<Rightarrow> int \<Rightarrow> string \<Rightarrow> local_storage \<Rightarrow> local_storage" where
  "handleSendMessage backend ui now stamp s =
     (if trim (inputMessage ui) = [] \<or> isLoading ui then s
      else
        (let userMessage = inputMessage ui;
             useSelectedDocs =
               (if contextMode ui = Mode_selected
                then Some (map Number_toString (selectedDocuments ui)) else None);
             useAllDocs = (contextMode ui = Mode_all);
             r = generateAIResponse backend userMessage useSelectedDocs useAllDocs s
         in case saveChatMessage
                   \<lparr>data_message = userMessage, data_response = result_response r,
                    data_context_documents =
                      (if length (context_sources r) > 0
                       then Some (stringify_sources (context_sources r)) else None)\<rparr>
                   now stamp s of
              Inl e \<Rightarrow> s
            | Inr (guestMessage, s') \<Rightarrow> s'))"

subsection \<open>Call sequences\<close>

text \<open>The store after a call that returns a result and the store, or throws: a call that
  throws has written nothing.\<close>

definition state_after :: "local_storage \<Rightarrow> js_error + ('a \<times> local_storage) \<Rightarrow> local_storage" where
  "state_after s r = (case r of Inl e \<Rightarrow> s | Inr (x, s') \<Rightarrow> s')"

text \<open>A sequence of \<^verbatim>\<open>saveDocument\<close> calls, each with its argument and its two clock
  readings; the result lists the created documents in the order of the calls.\<close>

fun saveDocument_calls ::
  "(DocumentData \<times> int \<times> string) list \<Rightarrow> local_storage
     \<Rightarrow> js_error + (GuestDocument list \<times> local_storage)" where
  "saveDocument_calls [] s = Inr ([], s)"
| "saveDocument_calls ((d, now, stamp) # cs) s =
     (case saveDocument d now stamp s of
        Inl e \<Rightarrow> Inl e
      | Inr (doc, s') \<Rightarrow>
          (case saveDocument_calls cs s' of
             Inl e \<Rightarrow> Inl e
           | Inr (docs, s'') \<Rightarrow> Inr (doc # docs, s'')))"

text \<open>What the dashboard does to the guest store: it sends a message, uploads a document
  (\<^verbatim>\<open>handleFileUpload\<close> calls \<^verbatim>\<open>saveDocument\<close> and catches its exception) or deletes one
  (\<^verbatim>\<open>confirmDelete\<close> calls \<^verbatim>\<open>deleteDocument\<close>). Between two calls the browser may change
  what it does with the next access: \<open>StorageCondition d f\<close> sets the flags \<open>denied\<close> and
  \<open>full\<close>, so that a store that took one write need not take the next.\<close>

datatype facade_call =
    SendMessage "chat_request \<Rightarrow> fetch_outcome" ui_state int string
  | UploadDocument DocumentData int string
  | DeleteDocument string
  | StorageCondition bool bool

fun facade_step :: "facade_call \<Rightarrow> local_storage \<Rightarrow> local_storage" where
  "facade_step (SendMessage backend ui now stamp) s = handleSendMessage backend ui now stamp s"
| "facade_step (UploadDocument d now stamp) s =
     (case saveDocument d now stamp s of Inl e \<Rightarrow> s | Inr (doc, s') \<Rightarrow> s')"
| "facade_step (DeleteDocument documentId) s = snd (deleteDocument documentId s)"
| "facade_step (StorageCondition d f) s = s\<lparr>denied := d, full := f\<rparr>"

fun facade_run :: "facade_call list \<Rightarrow> local_storage \<Rightarrow> local_storage" where
  "facade_run [] s = s"
| "facade_run (c # cs) s = facade_run cs (facade_step c s)"

subsection \<open>The specification's wording\<close>

text \<open>The context blob as the specification describes it: each block is a header line
  naming the file followed by the content, and a blank line separates two blocks.\<close>

definition spec_header :: "string \<Rightarrow> string" where
  "spec_header name = ''--- Document: '' @ name @ '' ---''"

fun spec_blob :: "GuestDocument list \<Rightarrow> string" where
  "spec_blob [] = []"
| "spec_blob [d] = spec_header (filename d) @ [CHR 0x0A] @ content d"
| "spec_blob (d # e # ds) =
     spec_header (filename d) @ [CHR 0x0A] @ content d @ [CHR 0x0A] @ [CHR 0x0A] @ spec_blob (e # ds)"


subsection \<open>Sample data\<close>

definition sample_a :: GuestDocument where
  "sample_a =
     \<lparr>filename = ''notes.txt'', file_type = ''text/plain'', content = ''hello'',
      doc_id = ''1'', doc_created_at = ''2024-01-01T00:00:00.000Z''\<rparr>"

definition sample_b :: GuestDocument where
  "sample_b =
     \<lparr>filename = ''b.md'', file_type = ''unknown'', content = ''two'',
      doc_id = ''2'', doc_created_at = ''2024-01-01T00:00:01.000Z''\<rparr>"

definition sample_storage :: local_storage where
  "sample_storage =
     \<lparr>denied = False, full = False,
      guestDocuments = Some (Json (Array [sample_a, sample_b])),
      guestChatHistory = None, guestMode = Some ''true'', guestModeLastActive = None\<rparr>"

definition sample_ui :: ui_state where
  "sample_ui =
     \<lparr>inputMessage = ''summarize'', isLoading = False, contextMode = Mode_none,
      selectedDocuments = []\<rparr>"


section \<open>Properties\<close>

subsection \<open>Numbers and text\<close>

lemma digit_value_digit_char: "d < 10 \<Longrightarrow> digit_value (digit_char d) = d"
proof -
  assume "d < 10"
  then have "d \<in> {0, 1, 2, 3, 4, 5, 6, 7, 8, 9}" by auto
  then show ?thesis
    by (auto simp: digit_char_def digit_value_def)
qed

lemma decimal_digit_code:
  "digit_value c < 10 \<Longrightarrow> 48 \<le> (of_char c :: nat) \<and> (of_char c :: nat) \<le> 57"
  by (auto simp: digit_value_def Let_def split: if_splits)

lemma decimal_digit_plain:
  assumes "digit_value c < 10"
  shows "\<not> is_whitespace c" and "c \<noteq> CHR ''-''" and "c \<noteq> CHR ''+''"
    and "c \<noteq> CHR ''x''" and "c \<noteq> CHR ''X''"
  using decimal_digit_code [OF assms] by (auto simp: is_whitespace_def)

lemma nat_toString_digits: "\<forall>c \<in> set (nat_toString n). digit_value c < 10"
proof (induction n rule: nat_toString.induct)
  case (1 n)
  show ?case
  proof (cases "n < 10")
    case True
    then show ?thesis by (simp add: nat_toString.simps [of n] digit_value_digit_char)
  next
    case False
    then show ?thesis using 1 by (simp add: nat_toString.simps [of n] digit_value_digit_char)
  qed
qed

lemma nat_toString_nonempty: "nat_toString n \<noteq> []"
  by (simp add: nat_toString.simps [of n])

lemma numeral_value_snoc: "numeral_value R (Z @ [c]) = numeral_value R Z * R + digit_value c"
  by (simp add: numeral_value_def)

lemma numeral_value_nat_toString: "numeral_value 10 (nat_toString n) = n"
proof (induction n rule: nat_toString.induct)
  case (1 n)
  show ?case
  proof (cases "n < 10")
    case True
    then show ?thesis
      by (simp add: nat_toString.simps [of n] numeral_value_def digit_value_digit_char)
  next
    case False
    then show ?thesis using 1
      by (simp add: nat_toString.simps [of n] numeral_value_snoc digit_value_digit_char)
  qed
qed

text \<open>\<^verbatim>\<open>parseInt\<close> reads a string of decimal digits, with or without a minus sign, as the
  number it denotes.\<close>

lemma parseInt_digits:
  assumes "Z \<noteq> []" and "\<forall>c \<in> set Z. digit_value c < 10"
  shows "parseInt Z = Some (int (numeral_value 10 Z))"
    and "parseInt (CHR ''-'' # Z) = Some (- int (numeral_value 10 Z))"
proof -
  obtain c Z' where Z: "Z = c # Z'" using assms(1) by (cases Z) auto
  have c: "digit_value c < 10" using assms(2) Z by simp
  have nohex: "(2 \<le> length Z \<and> (take 2 Z = ''0x'' \<or> take 2 Z = ''0X'')) = False"
  proof (cases Z')
    case Nil
    then show ?thesis by (simp add: Z)
  next
    case (Cons d Z'')
    have "digit_value d < 10" using assms(2) Z Cons by simp
    from decimal_digit_plain(4,5) [OF this] show ?thesis by (simp add: Z Cons)
  qed
  have tw: "takeWhile (\<lambda>c. digit_value c < 10) Z = Z"
    using assms(2) by simp
  have dw: "dropWhile is_whitespace Z = Z"
    using decimal_digit_plain(1) [OF c] by (simp add: Z)
  have hdZ: "(hd Z = CHR ''-'') = False" "(hd Z = CHR ''+'') = False"
    using decimal_digit_plain(2,3) [OF c] by (simp_all add: Z)
  show "parseInt Z = Some (int (numeral_value 10 Z))"
    unfolding parseInt_def dw by (simp add: Let_def nohex hdZ tw assms(1))
  have ws: "\<not> is_whitespace CHR ''-''" by (simp add: is_whitespace_def)
  show "parseInt (CHR ''-'' # Z) = Some (- int (numeral_value 10 Z))"
    unfolding parseInt_def by (simp add: Let_def ws nohex tw assms(1))
qed

lemma parseInt_Number_toString: "parseInt (Number_toString t) = Some t"
proof (cases "t < 0")
  case True
  then show ?thesis
    using parseInt_digits(2) [OF nat_toString_nonempty nat_toString_digits, of "nat (- t)"]
    by (simp add: Number_toString_def numeral_value_nat_toString)
next
  case False
  then show ?thesis
    using parseInt_digits(1) [OF nat_toString_nonempty nat_toString_digits, of "nat t"]
    by (simp add: Number_toString_def numeral_value_nat_toString)
qed

lemma Number_toString_inj: "Number_toString a = Number_toString b \<longleftrightarrow> a = b"
  by (metis parseInt_Number_toString option.inject)

lemma Number_toString_nonempty: "Number_toString t \<noteq> []"
  by (simp add: Number_toString_def nat_toString_nonempty)

text \<open>Evaluation of \<open>nat_toString\<close> on numerals.\<close>

lemma nat_toString_numeral:
  "nat_toString (numeral k) =
     (if (numeral k :: nat) < 10 then [digit_char (numeral k)]
      else nat_toString (numeral k div 10) @ [digit_char (numeral k mod 10)])"
  by (rule nat_toString.simps)

lemma nat_toString_0: "nat_toString 0 = ''0''"
  by (simp add: nat_toString.simps digit_char_def)

lemma nat_toString_1: "nat_toString (Suc 0) = ''1''"
  by (simp add: nat_toString.simps digit_char_def)

lemmas nat_toString_eval = nat_toString_numeral nat_toString_0 nat_toString_1 digit_char_def

subsection \<open>The store\<close>

lemma getDocuments_cases:
  "getDocuments s =
     (if denied s then Array []
      else case guestDocuments s of
             None \<Rightarrow> Array []
           | Some EmptyString \<Rightarrow> Array []
           | Some Malformed \<Rightarrow> Array []
           | Some (Json v) \<Rightarrow> v)"
  by (simp add: getDocuments_def getDocuments_try_def getItem_documents_def
      split: option.splits item.splits)

lemma getChatHistory_cases:
  "getChatHistory s =
     (if denied s then Array []
      else case guestChatHistory s of
             None \<Rightarrow> Array []
           | Some EmptyString \<Rightarrow> Array []
           | Some Malformed \<Rightarrow> Array []
           | Some (Json v) \<Rightarrow> v)"
  by (simp add: getChatHistory_def getChatHistory_try_def getItem_chatHistory_def
      split: option.splits item.splits)

lemma getDocuments_written:
  "\<not> denied s \<Longrightarrow> getDocuments (s\<lparr>guestDocuments := Some (Json v)\<rparr>) = v"
  by (simp add: getDocuments_cases)

lemma getChatHistory_written:
  "\<not> denied s \<Longrightarrow> getChatHistory (s\<lparr>guestChatHistory := Some (Json v)\<rparr>) = v"
  by (simp add: getChatHistory_cases)

lemma getChatHistory_documents_update:
  "getChatHistory (s\<lparr>guestDocuments := x\<rparr>) = getChatHistory s"
  by (simp add: getChatHistory_cases)

lemma getDocuments_chatHistory_update:
  "getDocuments (s\<lparr>guestChatHistory := x\<rparr>) = getDocuments s"
  by (simp add: getDocuments_cases)

lemma deleteDocument_array:
  assumes "getDocuments s = Array docs"
  shows "deleteDocument documentId s =
           (if denied s \<or> full s then (False, s)
            else (True, s\<lparr>guestDocuments :=
                    Some (Json (Array (filter (\<lambda>doc. doc_id doc \<noteq> documentId) docs)))\<rparr>))"
  by (simp add: deleteDocument_def deleteDocument_try_def assms setItem_documents_def)

lemma deleteDocument_non_array:
  assumes "getDocuments s = NonArray v"
  shows "deleteDocument documentId s = (False, s)"
  by (simp add: deleteDocument_def deleteDocument_try_def assms)

lemma saveDocument_array:
  assumes "getDocuments s = Array docs"
  shows "saveDocument d now stamp s =
           (if denied s then Inl access_denied
            else if full s then Inl quota_exceeded
            else Inr (\<lparr>filename = data_filename d, file_type = data_file_type d,
                       content = data_content d, doc_id = Number_toString now,
                       doc_created_at = stamp\<rparr>,
                      s\<lparr>guestDocuments := Some (Json (Array (docs @
                         [\<lparr>filename = data_filename d, file_type = data_file_type d,
                           content = data_content d, doc_id = Number_toString now,
                           doc_created_at = stamp\<rparr>])))\<rparr>))"
  by (simp add: saveDocument_def assms setItem_documents_def Let_def)

lemma saveDocument_non_array:
  assumes "getDocuments s = NonArray v"
  shows "saveDocument d now stamp s = Inl (no_method v ''push'')"
  by (simp add: saveDocument_def assms Let_def)

lemma saveChatMessage_array:
  assumes "getChatHistory s = Array h"
  shows "saveChatMessage m now stamp s =
           (if denied s then Inl access_denied
            else if full s then Inl quota_exceeded
            else Inr (\<lparr>message = data_message m, response = data_response m,
                       context_documents = data_context_documents m,
                       msg_id = Number_toString now, msg_created_at = stamp\<rparr>,
                      s\<lparr>guestChatHistory := Some (Json (Array (h @
                         [\<lparr>message = data_message m, response = data_response m,
                           context_documents = data_context_documents m,
                           msg_id = Number_toString now, msg_created_at = stamp\<rparr>])))\<rparr>))"
  by (simp add: saveChatMessage_def assms setItem_chatHistory_def Let_def)

lemma saveChatMessage_non_array:
  assumes "getChatHistory s = NonArray v"
  shows "saveChatMessage m now stamp s = Inl (no_method v ''push'')"
  by (simp add: saveChatMessage_def assms Let_def)

lemma find_none_after_filter:
  "find (\<lambda>doc. doc_id doc = documentId) (filter (\<lambda>doc. doc_id doc \<noteq> documentId) docs) = None"
  by (simp add: find_None_iff)

lemma sample_documents: "getDocuments sample_storage = Array [sample_a, sample_b]"
  by (simp add: getDocuments_cases sample_storage_def)

subsection \<open>Reading the collections\<close>

text \<open>
  Claim C5 says that \<^verbatim>\<open>getDocuments\<close> and \<^verbatim>\<open>getChatHistory\<close> return an empty sequence
  for every storage state, a corrupt value in the slot included. The code does so when the
  store cannot be read and when the slot is absent, empty or not JSON. It does not when the
  slot holds the JSON text \<^verbatim>\<open>null\<close>: the text is truthy, \<^verbatim>\<open>JSON.parse\<close> accepts it, no
  exception reaches the \<^verbatim>\<open>catch\<close>, and \<^verbatim>\<open>null\<close> is returned where the function
  declares an array; \<^verbatim>\<open>saveDocument\<close> then throws on \<^verbatim>\<open>push\<close>.
\<close>

theorem getDocuments_null_slot:
  "getDocuments (empty_storage\<lparr>guestDocuments := Some (Json (NonArray JNull))\<rparr>) = NonArray JNull \<and>
   getDocuments (empty_storage\<lparr>guestDocuments := Some (Json (NonArray JNull))\<rparr>) \<noteq> Array [] \<and>
   getChatHistory (empty_storage\<lparr>guestChatHistory := Some (Json (NonArray JNull))\<rparr>) = NonArray JNull \<and>
   getDocuments (empty_storage\<lparr>guestDocuments := Some Malformed\<rparr>) = Array [] \<and>
   saveDocument \<lparr>data_filename = ''a.txt'', data_file_type = ''text/plain'', data_content = ''x''\<rparr>
       1700000000000 ''2023-11-14T22:13:20.000Z''
       (empty_storage\<lparr>guestDocuments := Some (Json (NonArray JNull))\<rparr>) =
     Inl (TypeError (''Cannot read properties of null (reading '' @ [CHR 0x27] @ ''push'' @ [CHR 0x27] @ '')''))"
  by (simp add: getDocuments_cases getChatHistory_cases saveDocument_def empty_storage_def Let_def)

subsection \<open>Deleting a document\<close>

text \<open>
  Claim C7. On every collection \<open>docs\<close> and every id that no document of it has,
  \<^verbatim>\<open>deleteDocument\<close> returns whether the write succeeded (true in a store that can be
  written), and the persisted collection is still \<open>docs\<close>.
\<close>

theorem deleteDocument_absent_id:
  assumes "getDocuments s = Array docs" and "documentId \<notin> doc_id ` set docs"
  shows "fst (deleteDocument documentId s) = (\<not> denied s \<and> \<not> full s) \<and>
         getDocuments (snd (deleteDocument documentId s)) = Array docs"
proof -
  have keep: "filter (\<lambda>doc. doc_id doc \<noteq> documentId) docs = docs"
    using assms(2) by (auto simp: filter_id_conv)
  show ?thesis
    using assms(1) by (auto simp: deleteDocument_array [OF assms(1)] keep getDocuments_written)
qed

theorem deleteDocument_absent_id_witness:
  "fst (deleteDocument ''3'' sample_storage) = True \<and>
   getDocuments (snd (deleteDocument ''3'' sample_storage)) = Array [sample_a, sample_b]"
  using deleteDocument_absent_id [of sample_storage "[sample_a, sample_b]" "''3''"]
  by (simp add: sample_documents) (simp add: sample_a_def sample_b_def sample_storage_def)

text \<open>
  Claim C10. In a store that can be written, \<^verbatim>\<open>deleteDocument(id)\<close> succeeds and leaves
  the collection without any document of that id, the other documents all kept and in
  their order (the collection filtered by \<open>doc_id doc \<noteq> id\<close>); \<^verbatim>\<open>getDocument(id)\<close> then
  returns \<^verbatim>\<open>null\<close>.
\<close>

theorem deleteDocument_removes_all:
  assumes "getDocuments s = Array docs" and "\<not> denied s" and "\<not> full s"
  shows "fst (deleteDocument documentId s) \<and>
         getDocuments (snd (deleteDocument documentId s)) =
           Array (filter (\<lambda>doc. doc_id doc \<noteq> documentId) docs) \<and>
         getDocument documentId (snd (deleteDocument documentId s)) = Inr None"
  using assms(2,3)
  by (simp add: deleteDocument_array [OF assms(1)] getDocuments_written getDocument_def
      find_none_after_filter)

theorem deleteDocument_removes_all_witness:
  "fst (deleteDocument ''1'' sample_storage) \<and>
   getDocuments (snd (deleteDocument ''1'' sample_storage)) = Array [sample_b] \<and>
   getDocument ''1'' (snd (deleteDocument ''1'' sample_storage)) = Inr None"
  using deleteDocument_removes_all [of sample_storage "[sample_a, sample_b]" "''1''"]
  by (simp add: sample_documents) (simp add: sample_a_def sample_b_def sample_storage_def)

subsection \<open>Independence of the two collections\<close>

text \<open>
  Claim C9. In every storage state \<^verbatim>\<open>saveDocument\<close> and \<^verbatim>\<open>deleteDocument\<close> change at most
  the slot \<^verbatim>\<open>guestDocuments\<close>, and \<^verbatim>\<open>saveChatMessage\<close> changes at most the slot
  \<^verbatim>\<open>guestChatHistory\<close>: the chat history, respectively the documents, and every other key
  are as before.
\<close>

theorem collections_independent:
  "state_after s (saveDocument d now stamp s) =
     s\<lparr>guestDocuments := guestDocuments (state_after s (saveDocument d now stamp s))\<rparr> \<and>
   guestChatHistory (state_after s (saveDocument d now stamp s)) = guestChatHistory s \<and>
   snd (deleteDocument documentId s) =
     s\<lparr>guestDocuments := guestDocuments (snd (deleteDocument documentId s))\<rparr> \<and>
   guestChatHistory (snd (deleteDocument documentId s)) = guestChatHistory s \<and>
   state_after s (saveChatMessage m now stamp s) =
     s\<lparr>guestChatHistory := guestChatHistory (state_after s (saveChatMessage m now stamp s))\<rparr> \<and>
   guestDocuments (state_after s (saveChatMessage m now stamp s)) = guestDocuments s"
proof -
  have save: "state_after s (saveDocument d now stamp s) =
      s\<lparr>guestDocuments := guestDocuments (state_after s (saveDocument d now stamp s))\<rparr>"
    by (cases "getDocuments s")
      (simp_all add: saveDocument_array saveDocument_non_array state_after_def)
  have del: "snd (deleteDocument documentId s) =
      s\<lparr>guestDocuments := guestDocuments (snd (deleteDocument documentId s))\<rparr>"
    by (cases "getDocuments s") (simp_all add: deleteDocument_array deleteDocument_non_array)
  have chat: "state_after s (saveChatMessage m now stamp s) =
      s\<lparr>guestChatHistory := guestChatHistory (state_after s (saveChatMessage m now stamp s))\<rparr>"
    by (cases "getChatHistory s")
      (simp_all add: saveChatMessage_array saveChatMessage_non_array state_after_def)
  have "guestChatHistory (state_after s (saveDocument d now stamp s)) = guestChatHistory s"
    by (subst save) simp
  moreover have "guestChatHistory (snd (deleteDocument documentId s)) = guestChatHistory s"
    by (subst del) simp
  moreover have "guestDocuments (state_after s (saveChatMessage m now stamp s)) = guestDocuments s"
    by (subst chat) simp
  ultimately show ?thesis using save del chat by blast
qed



subsection \<open>Context assembly\<close>

lemma join_loop_later:
  "fst (foldl (\<lambda>(R, k) x. ((if k > 0 then R @ sep else R) @ x, Suc k)) (R0, Suc k0) xs) =
     R0 @ concat (map (\<lambda>x. sep @ x) xs)"
  by (induction xs arbitrary: R0 k0) simp_all

lemma join_Nil: "join sep [] = []"
  by (simp add: join_def)

lemma join_Cons: "join sep (x # xs) = x @ concat (map (\<lambda>y. sep @ y) xs)"
  by (simp add: join_def join_loop_later)

lemma join_blocks: "join [CHR 0x0A, CHR 0x0A] (map document_block docs) = spec_blob docs"
proof (induction docs rule: spec_blob.induct)
  case 1
  show ?case by (simp add: join_Nil)
next
  case (2 d)
  show ?case by (simp add: join_Cons document_block_def spec_header_def)
next
  case (3 d e ds)
  then show ?case by (simp add: join_Cons document_block_def spec_header_def)
qed

lemma assemble_context_all:
  assumes "getDocuments s = Array docs"
  shows "assemble_context sel True s = Inr (spec_blob docs, map document_source docs)"
  by (simp add: assemble_context_def assms join_blocks)

lemma assemble_context_selected:
  assumes "getDocuments s = Array docs"
  shows "assemble_context (Some S) False s =
           Inr (spec_blob (filter (\<lambda>doc. doc_id doc \<in> set S) docs),
                map document_source (filter (\<lambda>doc. doc_id doc \<in> set S) docs))"
proof (cases "S = []")
  case True
  then show ?thesis by (simp add: assemble_context_def)
next
  case False
  then show ?thesis by (simp add: assemble_context_def assms join_blocks)
qed

lemma generateAIResponse_data:
  assumes "assemble_context sel useAll s = Inr (context, sources)"
    and "backend \<lparr>req_message = msg, req_context = context, req_context_sources = sources\<rparr> = Data r"
  shows "generateAIResponse backend msg sel useAll s =
           \<lparr>result_response = r, context_used = (sources \<noteq> []), context_sources = sources\<rparr>"
  by (simp add: generateAIResponse_def generateAIResponse_try_def assms)

text \<open>
  Claim C3. In \<^verbatim>\<open>all\<close> mode (\<^verbatim>\<open>useAllDocuments\<close> true) the context sent to the backend is,
  for the stored documents in their order, each document's header line
  \<^verbatim>\<open>--- Document: <filename> ---\<close> followed by its content, with a blank line between
  two blocks; the sources are the \<^verbatim>\<open>{id, filename}\<close> pairs of all documents in the same
  order, and they are the source list returned when the backend answers.
\<close>

theorem context_all_mode:
  assumes "getDocuments s = Array docs"
  shows "assemble_context selectedDocs True s =
           Inr (spec_blob docs,
                map (\<lambda>doc. \<lparr>source_id = doc_id doc, source_filename = filename doc\<rparr>) docs) \<and>
         (backend \<lparr>req_message = msg, req_context = spec_blob docs,
                   req_context_sources =
                     map (\<lambda>doc. \<lparr>source_id = doc_id doc, source_filename = filename doc\<rparr>) docs\<rparr>
            = Data r \<longrightarrow>
          generateAIResponse backend msg selectedDocs True s =
            \<lparr>result_response = r, context_used = (docs \<noteq> []),
             context_sources =
               map (\<lambda>doc. \<lparr>source_id = doc_id doc, source_filename = filename doc\<rparr>) docs\<rparr>)"
proof -
  have a: "assemble_context selectedDocs True s =
      Inr (spec_blob docs,
           map (\<lambda>doc. \<lparr>source_id = doc_id doc, source_filename = filename doc\<rparr>) docs)"
    using assemble_context_all [OF assms, of selectedDocs] by (simp add: document_source_def)
  show ?thesis
    using a generateAIResponse_data [OF a, of backend msg r] by simp
qed

theorem context_all_mode_witness:
  "assemble_context None True sample_storage =
     Inr (''--- Document: notes.txt ---'' @ [CHR 0x0A] @ ''hello'' @ [CHR 0x0A, CHR 0x0A] @
          ''--- Document: b.md ---'' @ [CHR 0x0A] @ ''two'',
          [\<lparr>source_id = ''1'', source_filename = ''notes.txt''\<rparr>,
           \<lparr>source_id = ''2'', source_filename = ''b.md''\<rparr>]) \<and>
   context_sources (generateAIResponse (\<lambda>req. Data (Text ''ok'')) ''summarize'' None True sample_storage) =
     [\<lparr>source_id = ''1'', source_filename = ''notes.txt''\<rparr>,
      \<lparr>source_id = ''2'', source_filename = ''b.md''\<rparr>]"
  using context_all_mode [OF sample_documents, of None "\<lambda>req. Data (Text ''ok'')" "''summarize''" "Text ''ok''"]
  by (simp add: sample_a_def sample_b_def spec_header_def)

text \<open>
  Claim C4. In \<^verbatim>\<open>selected\<close> mode (\<^verbatim>\<open>useAllDocuments\<close> false, a selection \<open>S\<close> given) the
  context is built, with the framing of \<^verbatim>\<open>all\<close> mode, from exactly the stored documents
  whose id is in \<open>S\<close>, in the stored order whatever the order of \<open>S\<close>; the sources are
  their \<^verbatim>\<open>{id, filename}\<close> pairs. With an empty \<open>S\<close> the context is the empty string and
  there is no source.
\<close>

theorem context_selected_mode:
  assumes "getDocuments s = Array docs"
  shows "assemble_context (Some S) False s =
           Inr (spec_blob (filter (\<lambda>doc. doc_id doc \<in> set S) docs),
                map (\<lambda>doc. \<lparr>source_id = doc_id doc, source_filename = filename doc\<rparr>)
                  (filter (\<lambda>doc. doc_id doc \<in> set S) docs)) \<and>
         assemble_context (Some []) False s = Inr ([], []) \<and>
         (backend \<lparr>req_message = msg,
                   req_context = spec_blob (filter (\<lambda>doc. doc_id doc \<in> set S) docs),
                   req_context_sources =
                     map (\<lambda>doc. \<lparr>source_id = doc_id doc, source_filename = filename doc\<rparr>)
                       (filter (\<lambda>doc. doc_id doc \<in> set S) docs)\<rparr>
            = Data r \<longrightarrow>
          context_sources (generateAIResponse backend msg (Some S) False s) =
            map (\<lambda>doc. \<lparr>source_id = doc_id doc, source_filename = filename doc\<rparr>)
              (filter (\<lambda>doc. doc_id doc \<in> set S) docs))"
proof -
  have a: "assemble_context (Some S) False s =
      Inr (spec_blob (filter (\<lambda>doc. doc_id doc \<in> set S) docs),
           map (\<lambda>doc. \<lparr>source_id = doc_id doc, source_filename = filename doc\<rparr>)
             (filter (\<lambda>doc. doc_id doc \<in> set S) docs))"
    using assemble_context_selected [OF assms, of S] by (simp add: document_source_def)
  have e: "assemble_context (Some []) False s = Inr ([], [])"
    by (simp add: assemble_context_def)
  show ?thesis
    using a e generateAIResponse_data [OF a, of backend msg r] by simp
qed

theorem context_selected_mode_witness:
  "assemble_context (Some [''2'', ''7'', ''1'']) False sample_storage =
     Inr (''--- Document: notes.txt ---'' @ [CHR 0x0A] @ ''hello'' @ [CHR 0x0A, CHR 0x0A] @
          ''--- Document: b.md ---'' @ [CHR 0x0A] @ ''two'',
          [\<lparr>source_id = ''1'', source_filename = ''notes.txt''\<rparr>,
           \<lparr>source_id = ''2'', source_filename = ''b.md''\<rparr>]) \<and>
   assemble_context (Some []) False sample_storage = Inr ([], []) \<and>
   context_sources
     (generateAIResponse (\<lambda>req. Data (Text ''ok'')) ''summarize'' (Some [''2'', ''7'', ''1'']) False
        sample_storage) =
     [\<lparr>source_id = ''1'', source_filename = ''notes.txt''\<rparr>,
      \<lparr>source_id = ''2'', source_filename = ''b.md''\<rparr>]"
  using context_selected_mode [OF sample_documents, of "[''2'', ''7'', ''1'']"
      "\<lambda>req. Data (Text ''ok'')" "''summarize''" "Text ''ok''"]
  by (simp add: sample_a_def sample_b_def spec_header_def)

subsection \<open>Resuming a hidden page\<close>

text \<open>
  Claim C6. Guest mode is active and the time \<open>t\<close> at which the page was hidden is
  stored (as the hide branch stores it, \<^verbatim>\<open>Date.now().toString()\<close>). When the page becomes
  visible at time \<open>now\<close>: if \<open>now - t\<close> exceeds \<open>30 * 60 * 1000\<close> ms, both collections and
  the guest-mode flag are removed and a reload is triggered; otherwise nothing is cleared,
  the store is unchanged and no reload happens.
\<close>

theorem resume_after_hidden:
  assumes "\<not> denied s" and "guestMode s = Some ''true''"
    and "guestModeLastActive s = Some (Number_toString t)"
  shows "visibilitychange Visible now s =
           (if now - t > 30 * 60 * 1000
            then Inr (s\<lparr>guestDocuments := None, guestChatHistory := None, guestMode := None\<rparr>, True)
            else Inr (s, False))"
  using assms
  by (simp add: visibilitychange_def getItem_guestMode_def getItem_lastActive_def
      parseInt_Number_toString Number_toString_nonempty clearAllData_def)

theorem resume_after_hidden_witness:
  "visibilitychange Visible (1000 + 10 * 60 * 1000)
     (sample_storage\<lparr>guestModeLastActive := Some (Number_toString 1000)\<rparr>) =
     Inr (sample_storage\<lparr>guestModeLastActive := Some (Number_toString 1000)\<rparr>, False) \<and>
   visibilitychange Visible (1000 + 30 * 60 * 1000 + 1)
     (sample_storage\<lparr>guestModeLastActive := Some (Number_toString 1000)\<rparr>) =
     Inr (sample_storage\<lparr>guestModeLastActive := Some (Number_toString 1000),
            guestDocuments := None, guestChatHistory := None, guestMode := None\<rparr>, True)"
  using resume_after_hidden [of "sample_storage\<lparr>guestModeLastActive := Some (Number_toString 1000)\<rparr>"
      1000 "1000 + 10 * 60 * 1000"]
    resume_after_hidden [of "sample_storage\<lparr>guestModeLastActive := Some (Number_toString 1000)\<rparr>"
      1000 "1000 + 30 * 60 * 1000 + 1"]
  by (simp add: sample_storage_def)



subsection \<open>Storage usage estimate\<close>






subsection \<open>Ids of saved documents\<close>

text \<open>
  Claim C2 says that after every sequence of \<^verbatim>\<open>saveDocument\<close> calls from the empty store
  \<^verbatim>\<open>getDocuments\<close> returns the created documents in insertion order with pairwise distinct
  ids. The order is kept, but the id is \<^verbatim>\<open>Date.now().toString()\<close> and nothing else: two
  calls that read the same millisecond, here 1700000000000, create two documents with the
  same id.
\<close>

theorem saveDocument_same_millisecond:
  "getDocuments
     (state_after empty_storage
        (saveDocument_calls
           [(\<lparr>data_filename = ''a.txt'', data_file_type = ''text/plain'', data_content = ''x''\<rparr>,
             1700000000000, ''2023-11-14T22:13:20.000Z''),
            (\<lparr>data_filename = ''b.txt'', data_file_type = ''text/plain'', data_content = ''y''\<rparr>,
             1700000000000, ''2023-11-14T22:13:20.000Z'')]
           empty_storage)) =
     Array [\<lparr>filename = ''a.txt'', file_type = ''text/plain'', content = ''x'',
             doc_id = ''1700000000000'', doc_created_at = ''2023-11-14T22:13:20.000Z''\<rparr>,
            \<lparr>filename = ''b.txt'', file_type = ''text/plain'', content = ''y'',
             doc_id = ''1700000000000'', doc_created_at = ''2023-11-14T22:13:20.000Z''\<rparr>] \<and>
   \<not> distinct [''1700000000000'', ''1700000000000'']"
  by (simp add: saveDocument_def getDocuments_cases setItem_documents_def empty_storage_def
      Number_toString_def nat_toString_eval Let_def state_after_def)

subsection \<open>Persisted chat messages\<close>

lemma facade_run_snoc: "facade_run (cs @ [c]) s = facade_step c (facade_run cs s)"
  by (induction cs arbitrary: s) simp_all

lemma apology_nonempty: "apology @ t \<noteq> []"
  by (simp add: apology_def)

lemma generateAIResponse_no_context:
  assumes "assemble_context sel useAll s = Inl e"
  shows "result_response (generateAIResponse backend msg sel useAll s) =
           Text (apology @ error_toString e)"
  by (simp add: generateAIResponse_def generateAIResponse_try_def assms)

lemma generateAIResponse_outcome:
  assumes "assemble_context sel useAll s = Inr (ctx, srcs)"
  shows "result_response (generateAIResponse backend msg sel useAll s) =
           (case backend \<lparr>req_message = msg, req_context = ctx, req_context_sources = srcs\<rparr> of
              FetchRejected e \<Rightarrow> Text (apology @ error_toString e)
            | ResponseNotOk \<Rightarrow> Text (apology @ ''Error: Failed to get AI response'')
            | JsonRejected e \<Rightarrow> Text (apology @ error_toString e)
            | NullBody \<Rightarrow> Text (apology @ error_toString null_body_error)
            | Data v \<Rightarrow> v)"
  by (simp add: generateAIResponse_def generateAIResponse_try_def assms error_toString_def
      split: fetch_outcome.splits)

lemma handleSendMessage_skipped:
  assumes "trim (inputMessage ui) = [] \<or> isLoading ui \<or> denied s \<or> full s \<or>
           getChatHistory s = NonArray v"
  shows "handleSendMessage backend ui now stamp s = s"
proof (cases "getChatHistory s")
  case (Array h)
  then show ?thesis
    using assms by (auto simp: handleSendMessage_def Let_def saveChatMessage_array)
next
  case (NonArray w)
  then show ?thesis
    by (simp add: handleSendMessage_def Let_def saveChatMessage_non_array)
qed

lemma handleSendMessage_appends:
  assumes "getChatHistory s = Array h" and "trim (inputMessage ui) \<noteq> []" and "\<not> isLoading ui"
    and "\<not> denied s" and "\<not> full s"
  shows "guestChatHistory (handleSendMessage backend ui now stamp s) =
           Some (Json (Array (h @
             [\<lparr>message = inputMessage ui,
               response = result_response
                 (generateAIResponse backend (inputMessage ui)
                    (if contextMode ui = Mode_selected
                     then Some (map Number_toString (selectedDocuments ui)) else None)
                    (contextMode ui = Mode_all) s),
               context_documents =
                 (if context_sources
                       (generateAIResponse backend (inputMessage ui)
                          (if contextMode ui = Mode_selected
                           then Some (map Number_toString (selectedDocuments ui)) else None)
                          (contextMode ui = Mode_all) s) \<noteq> []
                  then Some (stringify_sources (context_sources
                       (generateAIResponse backend (inputMessage ui)
                          (if contextMode ui = Mode_selected
                           then Some (map Number_toString (selectedDocuments ui)) else None)
                          (contextMode ui = Mode_all) s)))
                  else None),
               msg_id = Number_toString now, msg_created_at = stamp\<rparr>])))"
  using assms(2-5)
  by (simp add: handleSendMessage_def Let_def saveChatMessage_array [OF assms(1)])

lemma saveDocument_keeps_history:
  "guestChatHistory (case saveDocument d now stamp s of Inl e \<Rightarrow> s | Inr (doc, s') \<Rightarrow> s') =
     guestChatHistory s"
  by (cases "getDocuments s") (simp_all add: saveDocument_array saveDocument_non_array)

lemma deleteDocument_keeps_history:
  "guestChatHistory (snd (deleteDocument documentId s)) = guestChatHistory s"
  by (cases "getDocuments s") (simp_all add: deleteDocument_array deleteDocument_non_array)

text \<open>
  Claim C1, as amended. Take any sequence \<open>cs\<close> of facade calls from any store \<open>s\<close>, and
  one more call.
  \<^item> An upload, a deletion and a change of the browser's condition leave the stored chat
    history as it is.
  \<^item> A send whose input is blank, or that comes while another is loading, or that meets a
    store it cannot write (access denied, write refused, history slot not an array) leaves
    the store as it is.
  \<^item> Every other send appends exactly one message to the stored history \<open>h\<close>: it carries
    the user's text, the id and time stamp read when it is saved, and the response that
    \<^verbatim>\<open>generateAIResponse\<close> returned for this call. That response is the apologetic
    fallback text followed by the error when this call's request was rejected, had a
    status that is not a success, or had a body that is not JSON or is \<^verbatim>\<open>null\<close>, and when
    the context could not be assembled; otherwise it is \<^verbatim>\<open>data.response\<close> of this call's
    answer, unchecked.
  \<^item> The fallback text is not empty. So the stored response is a non-empty string in every
    failed run, and in a successful run exactly when \<^verbatim>\<open>data.response\<close> is one.
\<close>

theorem persisted_responses:
  "(let s1 = facade_run cs s;
        sel = (if contextMode ui = Mode_selected
               then Some (map Number_toString (selectedDocuments ui)) else None);
        useAll = (contextMode ui = Mode_all);
        s2 = facade_run (cs @ [SendMessage backend ui now stamp]) s
    in guestChatHistory (facade_run (cs @ [UploadDocument d upNow upStamp]) s) = guestChatHistory s1 \<and>
       guestChatHistory (facade_run (cs @ [DeleteDocument documentId]) s) = guestChatHistory s1 \<and>
       guestChatHistory (facade_run (cs @ [StorageCondition dn fl]) s) = guestChatHistory s1 \<and>
       (trim (inputMessage ui) = [] \<or> isLoading ui \<or> denied s1 \<or> full s1 \<or>
        getChatHistory s1 = NonArray v \<longrightarrow> s2 = s1) \<and>
       (getChatHistory s1 = Array h \<and> trim (inputMessage ui) \<noteq> [] \<and> \<not> isLoading ui \<and>
        \<not> denied s1 \<and> \<not> full s1 \<longrightarrow>
        (\<exists>m. guestChatHistory s2 = Some (Json (Array (h @ [m]))) \<and>
             getChatHistory s2 = Array (h @ [m]) \<and>
             message m = inputMessage ui \<and>
             msg_id m = Number_toString now \<and> msg_created_at m = stamp \<and>
             response m = result_response (generateAIResponse backend (inputMessage ui) sel useAll s1) \<and>
             (\<forall>e. assemble_context sel useAll s1 = Inl e \<longrightarrow>
                  response m = Text (apology @ error_toString e)) \<and>
             (\<forall>ctx srcs. assemble_context sel useAll s1 = Inr (ctx, srcs) \<longrightarrow>
                  response m =
                    (case backend \<lparr>req_message = inputMessage ui, req_context = ctx,
                                   req_context_sources = srcs\<rparr> of
                       FetchRejected e \<Rightarrow> Text (apology @ error_toString e)
                     | ResponseNotOk \<Rightarrow> Text (apology @ ''Error: Failed to get AI response'')
                     | JsonRejected e \<Rightarrow> Text (apology @ error_toString e)
                     | NullBody \<Rightarrow> Text (apology @ error_toString null_body_error)
                     | Data r \<Rightarrow> r)))) \<and>
       apology @ rest \<noteq> [])"
proof -
  define s1 where "s1 = facade_run cs s"
  define sel where "sel = (if contextMode ui = Mode_selected
               then Some (map Number_toString (selectedDocuments ui)) else None)"
  define useAll where "useAll = (contextMode ui = Mode_all)"
  define s2 where "s2 = facade_run (cs @ [SendMessage backend ui now stamp]) s"
  have s2: "s2 = handleSendMessage backend ui now stamp s1"
    by (simp add: s2_def s1_def facade_run_snoc)
  have up: "guestChatHistory (facade_run (cs @ [UploadDocument d upNow upStamp]) s) = guestChatHistory s1"
    by (simp add: facade_run_snoc s1_def saveDocument_keeps_history)
  have del: "guestChatHistory (facade_run (cs @ [DeleteDocument documentId]) s) = guestChatHistory s1"
    by (simp add: facade_run_snoc s1_def deleteDocument_keeps_history)
  have cond: "guestChatHistory (facade_run (cs @ [StorageCondition dn fl]) s) = guestChatHistory s1"
    by (simp add: facade_run_snoc s1_def)
  have skip: "s2 = s1"
    if "trim (inputMessage ui) = [] \<or> isLoading ui \<or> denied s1 \<or> full s1 \<or>
        getChatHistory s1 = NonArray v"
    using handleSendMessage_skipped [OF that] by (simp add: s2)
  have app: "\<exists>m. guestChatHistory s2 = Some (Json (Array (h @ [m]))) \<and>
             getChatHistory s2 = Array (h @ [m]) \<and>
             message m = inputMessage ui \<and>
             msg_id m = Number_toString now \<and> msg_created_at m = stamp \<and>
             response m = result_response (generateAIResponse backend (inputMessage ui) sel useAll s1) \<and>
             (\<forall>e. assemble_context sel useAll s1 = Inl e \<longrightarrow>
                  response m = Text (apology @ error_toString e)) \<and>
             (\<forall>ctx srcs. assemble_context sel useAll s1 = Inr (ctx, srcs) \<longrightarrow>
                  response m =
                    (case backend \<lparr>req_message = inputMessage ui, req_context = ctx,
                                   req_context_sources = srcs\<rparr> of
                       FetchRejected e \<Rightarrow> Text (apology @ error_toString e)
                     | ResponseNotOk \<Rightarrow> Text (apology @ ''Error: Failed to get AI response'')
                     | JsonRejected e \<Rightarrow> Text (apology @ error_toString e)
                     | NullBody \<Rightarrow> Text (apology @ error_toString null_body_error)
                     | Data r \<Rightarrow> r))"
    if h: "getChatHistory s1 = Array h" and ok: "trim (inputMessage ui) \<noteq> []" "\<not> isLoading ui"
      "\<not> denied s1" "\<not> full s1"
  proof -
    define r where "r = generateAIResponse backend (inputMessage ui) sel useAll s1"
    define m where "m = \<lparr>message = inputMessage ui, response = result_response r,
        context_documents = (if context_sources r \<noteq> []
           then Some (stringify_sources (context_sources r)) else None),
        msg_id = Number_toString now, msg_created_at = stamp\<rparr>"
    have slot: "guestChatHistory s2 = Some (Json (Array (h @ [m])))"
      using handleSendMessage_appends [OF h ok, of backend now stamp]
      by (simp add: s2 m_def r_def sel_def useAll_def)
    have frame: "s2 = s1\<lparr>guestChatHistory := guestChatHistory s2\<rparr>"
      using ok by (simp add: s2 handleSendMessage_def Let_def saveChatMessage_array [OF h])
    have "denied s2 = denied s1" by (subst frame) simp
    then have read: "getChatHistory s2 = Array (h @ [m])"
      using ok(3) slot by (simp add: getChatHistory_cases)
    have fields: "message m = inputMessage ui" "msg_id m = Number_toString now"
      "msg_created_at m = stamp" "response m = result_response r"
      by (simp_all add: m_def)
    have nocontext: "response m = Text (apology @ error_toString e)"
      if "assemble_context sel useAll s1 = Inl e" for e
      using generateAIResponse_no_context [OF that, of backend "inputMessage ui"]
      by (simp add: fields r_def)
    have outcome: "response m =
          (case backend \<lparr>req_message = inputMessage ui, req_context = ctx,
                         req_context_sources = srcs\<rparr> of
             FetchRejected e \<Rightarrow> Text (apology @ error_toString e)
           | ResponseNotOk \<Rightarrow> Text (apology @ ''Error: Failed to get AI response'')
           | JsonRejected e \<Rightarrow> Text (apology @ error_toString e)
           | NullBody \<Rightarrow> Text (apology @ error_toString null_body_error)
           | Data r \<Rightarrow> r)"
      if "assemble_context sel useAll s1 = Inr (ctx, srcs)" for ctx srcs
      using generateAIResponse_outcome [OF that, of backend "inputMessage ui"]
      by (simp add: fields r_def)
    show ?thesis
      using slot read fields nocontext outcome unfolding r_def by blast
  qed
  have "guestChatHistory (facade_run (cs @ [UploadDocument d upNow upStamp]) s) = guestChatHistory s1 \<and>
       guestChatHistory (facade_run (cs @ [DeleteDocument documentId]) s) = guestChatHistory s1 \<and>
       guestChatHistory (facade_run (cs @ [StorageCondition dn fl]) s) = guestChatHistory s1 \<and>
       (trim (inputMessage ui) = [] \<or> isLoading ui \<or> denied s1 \<or> full s1 \<or>
        getChatHistory s1 = NonArray v \<longrightarrow> s2 = s1) \<and>
       (getChatHistory s1 = Array h \<and> trim (inputMessage ui) \<noteq> [] \<and> \<not> isLoading ui \<and>
        \<not> denied s1 \<and> \<not> full s1 \<longrightarrow>
        (\<exists>m. guestChatHistory s2 = Some (Json (Array (h @ [m]))) \<and>
             getChatHistory s2 = Array (h @ [m]) \<and>
             message m = inputMessage ui \<and>
             msg_id m = Number_toString now \<and> msg_created_at m = stamp \<and>
             response m = result_response (generateAIResponse backend (inputMessage ui) sel useAll s1) \<and>
             (\<forall>e. assemble_context sel useAll s1 = Inl e \<longrightarrow>
                  response m = Text (apology @ error_toString e)) \<and>
             (\<forall>ctx srcs. assemble_context sel useAll s1 = Inr (ctx, srcs) \<longrightarrow>
                  response m =
                    (case backend \<lparr>req_message = inputMessage ui, req_context = ctx,
                                   req_context_sources = srcs\<rparr> of
                       FetchRejected e \<Rightarrow> Text (apology @ error_toString e)
                     | ResponseNotOk \<Rightarrow> Text (apology @ ''Error: Failed to get AI response'')
                     | JsonRejected e \<Rightarrow> Text (apology @ error_toString e)
                     | NullBody \<Rightarrow> Text (apology @ error_toString null_body_error)
                     | Data r \<Rightarrow> r)))) \<and>
       apology @ rest \<noteq> []"
    using up del cond skip app apology_nonempty [of rest] by blast
  then show ?thesis
    unfolding Let_def s1_def s2_def sel_def useAll_def .
qed

theorem persisted_responses_witness:
  "getChatHistory
     (facade_run
        ([SendMessage (\<lambda>req. ResponseNotOk) sample_ui 1700000000000 ''t1''] @
         [SendMessage (\<lambda>req. Data (Text ''fine'')) sample_ui 1700000000500 ''t2''])
        empty_storage) =
     Array [\<lparr>message = ''summarize'',
             response = Text (apology @ ''Error: Failed to get AI response''),
             context_documents = None, msg_id = ''1700000000000'', msg_created_at = ''t1''\<rparr>,
            \<lparr>message = ''summarize'', response = Text ''fine'',
             context_documents = None, msg_id = ''1700000000500'', msg_created_at = ''t2''\<rparr>] \<and>
   apology @ ''Error: Failed to get AI response'' \<noteq> []"
  using persisted_responses [where cs = "[SendMessage (\<lambda>req. ResponseNotOk) sample_ui 1700000000000 ''t1'']"
      and s = empty_storage and ui = sample_ui and backend = "\<lambda>req. Data (Text ''fine'')"
      and now = 1700000000500 and stamp = "''t2''"
      and rest = "''Error: Failed to get AI response''"
      and h = "[\<lparr>message = ''summarize'',
             response = Text (apology @ ''Error: Failed to get AI response''),
             context_documents = None, msg_id = ''1700000000000'', msg_created_at = ''t1''\<rparr>]"]
  by (simp add: handleSendMessage_def sample_ui_def trim_def is_whitespace_def
      generateAIResponse_def generateAIResponse_try_def assemble_context_def
      saveChatMessage_def getChatHistory_cases setItem_chatHistory_def empty_storage_def
      Number_toString_def nat_toString_eval error_toString_def Let_def)

text \<open>The claim as stated fails when the backend answers with an empty response text, and
  when its answer has no \<^verbatim>\<open>response\<close> at all: the message is saved with the empty
  response, respectively without one.\<close>

theorem empty_backend_response_counterexample:
  "getChatHistory
     (facade_run [SendMessage (\<lambda>req. Data (Text [])) sample_ui 1700000000000 ''t1''] empty_storage) =
     Array [\<lparr>message = ''summarize'', response = Text [], context_documents = None,
             msg_id = ''1700000000000'', msg_created_at = ''t1''\<rparr>] \<and>
   getChatHistory
     (facade_run [SendMessage (\<lambda>req. Data Undefined) sample_ui 1700000000000 ''t1''] empty_storage) =
     Array [\<lparr>message = ''summarize'', response = Undefined, context_documents = None,
             msg_id = ''1700000000000'', msg_created_at = ''t1''\<rparr>]"
  by (simp add: handleSendMessage_def sample_ui_def trim_def is_whitespace_def
      generateAIResponse_def generateAIResponse_try_def assemble_context_def
      saveChatMessage_def getChatHistory_cases setItem_chatHistory_def empty_storage_def
      Number_toString_def nat_toString_eval Let_def)


end
